theory Spec2Isabelle
  imports Complex_Main "HOL-Library.Word"
begin

unbundle bit_operations_syntax

section \<open>The bulletc bridge: data model\<close>

text \<open>
  The theory embeds the C++ bridge between the rigid-body engine and the game:
  \<^verbatim>\<open>common.hpp\<close>, \<^verbatim>\<open>dynworld.hpp\<close>, \<^verbatim>\<open>dynworld.cpp\<close>, \<^verbatim>\<open>debug.cpp\<close> and
  \<^verbatim>\<open>entity_collider.cpp\<close>.  (\<^verbatim>\<open>bulletc.cpp\<close> is the earlier one-file revision of
  the same functions, without jump sensors; its \<^verbatim>\<open>slab_collider_update\<close> tears
  down and registers in the same order.)  The engine itself (broadphase, contact
  tests, the debug traversal, the margin of a box shape) is not part of the
  repository; where a function of the bridge asks the engine for an answer, that
  answer is a parameter of the embedded function.  Of the engine's own operations
  the theory fixes only what the bridge relies on: transforms compose as rotation
  and translation, \<^verbatim>\<open>setWorldTransform\<close> overwrites the world transform,
  \<^verbatim>\<open>applyCentralForce\<close> adds to the pending force, \<^verbatim>\<open>addRigidBody\<close> and
  \<^verbatim>\<open>removeRigidBody\<close> add and remove entries of the object array.

  Conventions.
  \<^item> \<^verbatim>\<open>btScalar\<close> and \<^verbatim>\<open>float\<close> are modelled by exact real numbers: the
    theorems are about which quantities enter a formula, not about rounding.
  \<^item> A pointer that a function compares with \<^verbatim>\<open>nullptr\<close> is an \<open>option\<close>.
    A \<^verbatim>\<open>slab_collider*\<close> and a \<^verbatim>\<open>DebugRenderer*\<close> are addresses into a
    store of live allocations, because the code frees them; a read through a
    null or freed pointer is a \<open>fault\<close>.  The \<^verbatim>\<open>dynworld*\<close> and the
    buffers handed to a function are taken to be valid, as the C interface
    requires.
  \<^item> \<^verbatim>\<open>new\<close> hands out the next unused address and does not fail.
  \<^item> \<^verbatim>\<open>size_t\<close> is a 64-bit word and \<^verbatim>\<open>int\<close> a 32-bit one: a product of counts
    wraps, and a count stored in an \<^verbatim>\<open>int\<close> field keeps its low 32 bits, read as
    a signed number.
\<close>

subsection \<open>Vectors and transforms\<close>

type_synonym btScalar = real
type_synonym btVector3 = "btScalar \<times> btScalar \<times> btScalar"
type_synonym btMatrix3x3 = "btVector3 \<times> btVector3 \<times> btVector3"

text \<open>\<^verbatim>\<open>common.hpp\<close>: the axes and their indices.\<close>

definition UP :: btVector3 where "UP = (0, 0, 1)"
definition UP_DIM :: nat where "UP_DIM = 2"
definition FWD :: btVector3 where "FWD = (0, 1, 0)"
definition FWD_DIM :: nat where "FWD_DIM = 1"
definition SIDE_DIM :: nat where "SIDE_DIM = 0"

text \<open>\<^verbatim>\<open>v[i]\<close>, \<^verbatim>\<open>v[i] = s\<close>, \<^verbatim>\<open>v * s\<close>, \<^verbatim>\<open>v + w\<close> on \<^verbatim>\<open>btVector3\<close>.\<close>

fun vidx :: "btVector3 \<Rightarrow> nat \<Rightarrow> btScalar" where
  "vidx (a, b, c) i = (if i = 0 then a else if i = 1 then b else c)"

fun vupd :: "btVector3 \<Rightarrow> nat \<Rightarrow> btScalar \<Rightarrow> btVector3" where
  "vupd (a, b, c) i s = (if i = 0 then (s, b, c) else if i = 1 then (a, s, c) else (a, b, s))"

fun vscale :: "btVector3 \<Rightarrow> btScalar \<Rightarrow> btVector3" where
  "vscale (a, b, c) s = (a * s, b * s, c * s)"

fun vadd :: "btVector3 \<Rightarrow> btVector3 \<Rightarrow> btVector3" where
  "vadd (a, b, c) (d, e, f) = (a + d, b + e, c + f)"

fun vdot :: "btVector3 \<Rightarrow> btVector3 \<Rightarrow> btScalar" where
  "vdot (a, b, c) (d, e, f) = a * d + b * e + c * f"

text \<open>A matrix is its three rows; \<open>mat_vec\<close> is \<^verbatim>\<open>m * v\<close>, \<open>mat_mul\<close> is \<^verbatim>\<open>m * n\<close>.\<close>

fun mat_vec :: "btMatrix3x3 \<Rightarrow> btVector3 \<Rightarrow> btVector3" where
  "mat_vec (r0, r1, r2) v = (vdot r0 v, vdot r1 v, vdot r2 v)"

fun mat_col :: "btMatrix3x3 \<Rightarrow> nat \<Rightarrow> btVector3" where
  "mat_col (r0, r1, r2) i = (vidx r0 i, vidx r1 i, vidx r2 i)"

definition mat_mul :: "btMatrix3x3 \<Rightarrow> btMatrix3x3 \<Rightarrow> btMatrix3x3" where
  "mat_mul m n =
     (let c0 = mat_col n 0; c1 = mat_col n 1; c2 = mat_col n 2 in
      case m of (r0, r1, r2) \<Rightarrow>
        ((vdot r0 c0, vdot r0 c1, vdot r0 c2),
         (vdot r1 c0, vdot r1 c1, vdot r1 c2),
         (vdot r2 c0, vdot r2 c1, vdot r2 c2)))"

definition mat_identity :: btMatrix3x3 where
  "mat_identity = ((1, 0, 0), (0, 1, 0), (0, 0, 1))"

record btTransform =
  basis :: btMatrix3x3
  origin :: btVector3

text \<open>\<^verbatim>\<open>btTransform::getIdentity()\<close> and \<^verbatim>\<open>t1 * t2\<close>.\<close>

definition getIdentity :: btTransform where
  "getIdentity = \<lparr>basis = mat_identity, origin = (0, 0, 0)\<rparr>"

definition transform_mul :: "btTransform \<Rightarrow> btTransform \<Rightarrow> btTransform" where
  "transform_mul t1 t2 =
     \<lparr>basis = mat_mul (basis t1) (basis t2),
      origin = vadd (mat_vec (basis t1) (origin t2)) (origin t1)\<rparr>"

text \<open>The basis that \<^verbatim>\<open>setRotation(btQuaternion(UP, angle))\<close> installs: a rotation
  by \<open>angle\<close> about the z axis.\<close>

definition rotation_about_up :: "btScalar \<Rightarrow> btMatrix3x3" where
  "rotation_about_up angle =
     ((cos angle, - sin angle, 0), (sin angle, cos angle, 0), (0, 0, 1))"

subsection \<open>Collision groups (\<^verbatim>\<open>common.hpp\<close>)\<close>

definition COL_NONE :: "32 word" where "COL_NONE = 0"
definition COL_WORLD :: "32 word" where "COL_WORLD = push_bit 10 1"
definition COL_ENTITIES :: "32 word" where "COL_ENTITIES = push_bit 11 1"
definition COL_ENTITY_JUMP_SENSOR :: "32 word" where "COL_ENTITY_JUMP_SENSOR = push_bit 12 1"

definition COLMASK_WORLD :: "32 word" where
  "COLMASK_WORLD = COL_ENTITIES OR COL_ENTITY_JUMP_SENSOR"
definition COLMASK_ENTITY :: "32 word" where
  "COLMASK_ENTITY = COL_WORLD"
definition COLMASK_ENTITY_JUMP_SENSOR :: "32 word" where
  "COLMASK_ENTITY_JUMP_SENSOR = COL_WORLD"

subsection \<open>The world and the store\<close>

type_synonym addr = nat

datatype fault = NullPointerDereference | UseAfterFree | DoubleFree | OutOfBoundsRead

text \<open>A collision object is named by the allocation that owns it: the body of the
  slab collider at an address, the body of the entity collider at an address, or
  the ghost body of that entity's jump sensor.\<close>

datatype obj_ref = SlabBody addr | EntityBody addr | SensorBody addr

text \<open>One entry of the dynamics world's object array, as
  \<^verbatim>\<open>addRigidBody(body, group, mask)\<close> and \<^verbatim>\<open>addCollisionObject(obj, group, mask)\<close>
  leave it.\<close>

record registration =
  obj :: obj_ref
  group :: "32 word"
  mask :: "32 word"

record btRigidBody =
  mass :: btScalar
  friction :: btScalar
  linearDamping :: btScalar
  angularFactor :: btVector3
  worldTransform :: btTransform
  interpolationWorldTransform :: btTransform
  totalForce :: btVector3
  userPointer :: nat

text \<open>\<^verbatim>\<open>btRigidBody(desc)\<close> with a null motion state: both transforms start at
  \<^verbatim>\<open>m_startWorldTransform\<close>, no force is pending, the angular factor is one in
  every axis and the user pointer is null.\<close>

definition new_btRigidBody :: "btScalar \<Rightarrow> btScalar \<Rightarrow> btScalar \<Rightarrow> btTransform \<Rightarrow> btRigidBody" where
  "new_btRigidBody m fr ld start =
     \<lparr>mass = m, friction = fr, linearDamping = ld, angularFactor = (1, 1, 1),
      worldTransform = start, interpolationWorldTransform = start,
      totalForce = (0, 0, 0), userPointer = 0\<rparr>"

text \<open>\<^verbatim>\<open>debug.hpp\<close>: the forwarder. \<open>draw_line\<close> is the address of the external
  sink, \<open>frame_blob\<close> the frame context (\<open>None\<close> is \<^verbatim>\<open>nullptr\<close>).\<close>

record DebugRenderer =
  frame_blob :: "nat option"
  draw_line :: nat
  mode :: int

definition new_DebugRenderer :: "nat \<Rightarrow> DebugRenderer" where
  "new_DebugRenderer f = \<lparr>frame_blob = None, draw_line = f, mode = 0\<rparr>"

definition setDebugMode :: "int \<Rightarrow> DebugRenderer \<Rightarrow> DebugRenderer" where
  "setDebugMode m r = r\<lparr>mode := m\<rparr>"

definition setFrameBlob :: "nat option \<Rightarrow> DebugRenderer \<Rightarrow> DebugRenderer" where
  "setFrameBlob blob r = r\<lparr>frame_blob := blob\<rparr>"

definition DBG_DrawWireframe :: int where "DBG_DrawWireframe = 1"

text \<open>One invocation of the external sink:
  \<^verbatim>\<open>draw_line(frame_blob, from, to, color)\<close>.\<close>

record draw_call =
  sink :: nat
  blob :: "nat option"
  line_from :: btVector3
  line_to :: btVector3
  line_color :: btVector3

text \<open>\<^verbatim>\<open>dynworld.hpp\<close>: the slab collider.\<close>

text \<open>The conversion of a \<^verbatim>\<open>size_t\<close> to \<^verbatim>\<open>int\<close>, and the division of
  \<^verbatim>\<open>int\<close>, which truncates towards zero.\<close>

definition int_of_size_t :: "64 word \<Rightarrow> int" where
  "int_of_size_t n = sint (ucast n :: 32 word)"

definition int_div :: "int \<Rightarrow> int \<Rightarrow> int" where
  "int_div k l = (if k < 0 then - ((- k) div l) else k div l)"

record btIndexedMesh =
  numTriangles :: int
  triangleIndexStride :: int
  numVertices :: int
  vertexStride :: int

record slab_collider =
  slab_body :: btRigidBody
  mesh :: btIndexedMesh
  vertices :: "btScalar list"
  indices :: "32 word list"

text \<open>The state of one \<^verbatim>\<open>dynworld\<close> together with the allocations the bridge
  makes for it: the object array of \<^verbatim>\<open>world->dynamicsWorld\<close>, its gravity and
  debug drawer, \<^verbatim>\<open>world->debugRenderer\<close>, the live \<^verbatim>\<open>DebugRenderer\<close> and
  \<^verbatim>\<open>slab_collider\<close> allocations, the next unused address, and the calls made
  to the external sink so far.\<close>

record dynworld =
  collisionObjects :: "registration list"
  gravity :: btVector3
  debugDrawer :: "addr option"
  debugRenderer :: "addr option"
  renderers :: "addr \<Rightarrow> DebugRenderer option"
  slabs :: "addr \<Rightarrow> slab_collider option"
  next_addr :: addr
  draw_calls :: "draw_call list"

section \<open>The world (\<^verbatim>\<open>dynworld.cpp\<close>)\<close>

definition dynworld_create :: "btScalar \<Rightarrow> dynworld" where
  "dynworld_create g =
     \<lparr>collisionObjects = [], gravity = (0, 0, g), debugDrawer = None,
      debugRenderer = None, renderers = (\<lambda>a. None), slabs = (\<lambda>a. None),
      next_addr = 1, draw_calls = []\<rparr>"

text \<open>\<^verbatim>\<open>delete world->debugRenderer\<close>: nothing for a null pointer, a free for a
  live one, a second free for one freed before.  The field itself is not
  written.\<close>

definition delete_debugRenderer :: "dynworld \<Rightarrow> fault + dynworld" where
  "delete_debugRenderer w =
     (case debugRenderer w of
        None \<Rightarrow> Inr w
      | Some a \<Rightarrow>
         (case renderers w a of
            None \<Rightarrow> Inl DoubleFree
          | Some r \<Rightarrow> Inr (w\<lparr>renderers := (renderers w)(a := None)\<rparr>)))"

definition dynworld_set_debug_drawer :: "dynworld \<Rightarrow> nat option \<Rightarrow> fault + dynworld" where
  "dynworld_set_debug_drawer w draw_line_arg =
     (case delete_debugRenderer w of
        Inl e \<Rightarrow> Inl e
      | Inr w1 \<Rightarrow>
         (case draw_line_arg of
            None \<Rightarrow> Inr w1
          | Some f \<Rightarrow>
             (let a = next_addr w1;
                  renderer = setDebugMode DBG_DrawWireframe (new_DebugRenderer f)
              in Inr (w1\<lparr>renderers := (renderers w1)(a \<mapsto> renderer),
                         next_addr := Suc a,
                         debugRenderer := Some a,
                         debugDrawer := Some a\<rparr>))))"

text \<open>\<^verbatim>\<open>DebugRenderer::drawLine\<close> (\<^verbatim>\<open>debug.cpp\<close>) forwards one line to the sink
  with the current frame blob.\<close>

definition drawLine :: "DebugRenderer \<Rightarrow> btVector3 \<times> btVector3 \<times> btVector3 \<Rightarrow> draw_call" where
  "drawLine r l =
     (case l of (f, t, c) \<Rightarrow>
        \<lparr>sink = draw_line r, blob = frame_blob r, line_from = f, line_to = t, line_color = c\<rparr>)"

text \<open>\<^verbatim>\<open>dynamicsWorld->debugDrawWorld()\<close>: the engine walks the objects and calls
  \<^verbatim>\<open>drawLine\<close> on the installed drawer once per line; without a drawer it draws
  nothing.  \<open>lines\<close> are the lines the engine's traversal emits.\<close>

definition debugDrawWorld :: "(btVector3 \<times> btVector3 \<times> btVector3) list \<Rightarrow> dynworld \<Rightarrow> fault + dynworld" where
  "debugDrawWorld lines w =
     (case debugDrawer w of
        None \<Rightarrow> Inr w
      | Some a \<Rightarrow>
         (case renderers w a of
            None \<Rightarrow> Inl UseAfterFree
          | Some r \<Rightarrow> Inr (w\<lparr>draw_calls := draw_calls w @ map (drawLine r) lines\<rparr>)))"

text \<open>\<^verbatim>\<open>world->debugRenderer->setFrameBlob(blob)\<close>: a write through
  \<^verbatim>\<open>world->debugRenderer\<close>, which the function does not test.\<close>

definition renderer_setFrameBlob :: "nat option \<Rightarrow> dynworld \<Rightarrow> fault + dynworld" where
  "renderer_setFrameBlob b w =
     (case debugRenderer w of
        None \<Rightarrow> Inl NullPointerDereference
      | Some a \<Rightarrow>
         (case renderers w a of
            None \<Rightarrow> Inl UseAfterFree
          | Some r \<Rightarrow> Inr (w\<lparr>renderers := (renderers w)(a \<mapsto> setFrameBlob b r)\<rparr>)))"

definition dynworld_debug_draw ::
  "(btVector3 \<times> btVector3 \<times> btVector3) list \<Rightarrow> dynworld \<Rightarrow> nat option \<Rightarrow> fault + dynworld" where
  "dynworld_debug_draw lines w frame_blob_arg =
     (case renderer_setFrameBlob frame_blob_arg w of
        Inl e \<Rightarrow> Inl e
      | Inr w1 \<Rightarrow>
         (case debugDrawWorld lines w1 of
            Inl e \<Rightarrow> Inl e
          | Inr w2 \<Rightarrow> renderer_setFrameBlob None w2))"

text \<open>\<^verbatim>\<open>removeRigidBody\<close> and \<^verbatim>\<open>addRigidBody\<close>/\<^verbatim>\<open>addCollisionObject\<close> on the
  object array.\<close>

definition removeRigidBody :: "obj_ref \<Rightarrow> registration list \<Rightarrow> registration list" where
  "removeRigidBody b objs = filter (\<lambda>r. obj r \<noteq> b) objs"

definition addCollisionObject ::
  "obj_ref \<Rightarrow> 32 word \<Rightarrow> 32 word \<Rightarrow> registration list \<Rightarrow> registration list" where
  "addCollisionObject b g m objs = objs @ [\<lparr>obj = b, group = g, mask = m\<rparr>]"

subsection \<open>\<^verbatim>\<open>slab_collider_update\<close>\<close>

text \<open>\<^verbatim>\<open>if (prev != nullptr) removeRigidBody(prev->slab_body);\<close> reads the
  previous collider and takes its body out of the object array.\<close>

definition slab_remove_prev :: "dynworld \<Rightarrow> addr option \<Rightarrow> fault + dynworld" where
  "slab_remove_prev w prev =
     (case prev of
        None \<Rightarrow> Inr w
      | Some p \<Rightarrow>
         (case slabs w p of
            None \<Rightarrow> Inl UseAfterFree
          | Some c \<Rightarrow>
             Inr (w\<lparr>collisionObjects := removeRigidBody (SlabBody p) (collisionObjects w)\<rparr>)))"

text \<open>\<^verbatim>\<open>delete prev;\<close> after that read: nothing for null; otherwise the
  destructor frees the index and vertex arrays, the shape, the mesh and the body,
  all of which the record at the address stands for.\<close>

definition slab_delete_prev :: "dynworld \<Rightarrow> addr option \<Rightarrow> dynworld" where
  "slab_delete_prev w prev =
     (case prev of
        None \<Rightarrow> w
      | Some p \<Rightarrow> w\<lparr>slabs := (slabs w)(p := None)\<rparr>)"

text \<open>The construction of the new collider from the copied buffers: the collider,
  its mesh, its shape and its static body (mass 0, friction 0.5) half a unit
  below \<^verbatim>\<open>slab_pos\<close>.  Nothing is registered yet.\<close>

definition slab_new ::
  "dynworld \<Rightarrow> btVector3 \<Rightarrow> btScalar list \<Rightarrow> 64 word \<Rightarrow> 32 word list \<Rightarrow> 64 word
     \<Rightarrow> dynworld \<times> addr" where
  "slab_new w slab_pos vertices_copy vertices_count indices_copy indices_count =
     (let a = next_addr w;
          m = \<lparr>numTriangles = int_div (int_of_size_t indices_count) 3,
               triangleIndexStride = 4 * 3,
               numVertices = int_of_size_t vertices_count,
               vertexStride = 4 * 3\<rparr>;
          start = getIdentity\<lparr>origin :=
                    (vidx slab_pos 0, vidx slab_pos 1, vidx slab_pos 2 - 0.5)\<rparr>;
          b = new_btRigidBody 0 0.5 0 start;
          collider = \<lparr>slab_body = b, mesh = m,
                      vertices = vertices_copy, indices = indices_copy\<rparr>
      in (w\<lparr>slabs := (slabs w)(a \<mapsto> collider), next_addr := Suc a\<rparr>, a))"

text \<open>\<^verbatim>\<open>addRigidBody(collider->slab_body, COL_WORLD, COLMASK_WORLD)\<close> and
  \<^verbatim>\<open>setUserPointer(500)\<close> for the collider at address \<open>a\<close>.\<close>

definition slab_register :: "dynworld \<Rightarrow> addr \<Rightarrow> dynworld" where
  "slab_register w a =
     w\<lparr>collisionObjects :=
          addCollisionObject (SlabBody a) COL_WORLD COLMASK_WORLD (collisionObjects w),
        slabs := (slabs w)(a :=
          map_option (\<lambda>c. c\<lparr>slab_body := (slab_body c)\<lparr>userPointer := 500\<rparr>\<rparr>) (slabs w a))\<rparr>"

text \<open>The function, statement by statement.  The two \<^verbatim>\<open>std::copy\<close> calls read
  \<open>vertices_count * 3\<close> floats and \<open>indices_count\<close> indices from the caller's
  buffers.  Then the previous body is removed, the previous collider deleted, the
  new collider built, and its body registered.  The result holds the world after
  each of these four steps, in this order, and the handle returned; the fourth
  world is the one the caller is left with.\<close>

definition slab_collider_update ::
  "dynworld \<Rightarrow> addr option \<Rightarrow> btVector3 \<Rightarrow> btScalar list \<Rightarrow> 64 word \<Rightarrow> 32 word list \<Rightarrow> 64 word
     \<Rightarrow> fault + ((dynworld \<times> dynworld \<times> dynworld \<times> dynworld) \<times> addr)" where
  "slab_collider_update w prev slab_pos vertices_arg vertices_count indices_arg indices_count =
     (if length vertices_arg < unat (vertices_count * 3)
         \<or> length indices_arg < unat indices_count
      then Inl OutOfBoundsRead
      else
        (let vertices_copy = take (unat (vertices_count * 3)) vertices_arg;
             indices_copy = take (unat indices_count) indices_arg
         in case slab_remove_prev w prev of
              Inl e \<Rightarrow> Inl e
            | Inr w1 \<Rightarrow>
               (let w2 = slab_delete_prev w1 prev
                in case slab_new w2 slab_pos vertices_copy vertices_count
                          indices_copy indices_count of
                     (w3, a) \<Rightarrow> Inr ((w1, w2, w3, slab_register w3 a), a))))"

section \<open>Entities and jump sensors (\<^verbatim>\<open>entity_collider.cpp\<close>)\<close>

datatype collision_flag = CF_STATIC_OBJECT | CF_KINEMATIC_OBJECT | CF_NO_CONTACT_RESPONSE

text \<open>The box shape keeps the half extents it was constructed from; what
  \<^verbatim>\<open>getHalfExtentsWithoutMargin\<close> returns for it is the engine's answer.\<close>

datatype btBoxShape = btBoxShape btVector3

fun box_dims :: "btBoxShape \<Rightarrow> btVector3" where
  "box_dims (btBoxShape d) = d"

record btGhostObject =
  ghost_worldTransform :: btTransform
  collisionFlags :: "collision_flag set"
  overlappingObjects :: "obj_ref list"

text \<open>A default-constructed ghost object: identity transform, the engine's
  default flag, no overlapping object.\<close>

definition new_btGhostObject :: btGhostObject where
  "new_btGhostObject =
     \<lparr>ghost_worldTransform = getIdentity, collisionFlags = {CF_STATIC_OBJECT},
      overlappingObjects = []\<rparr>"

text \<open>\<^verbatim>\<open>struct entity_jump_sensor\<close>. The user pointer of the ghost body is the
  address of \<open>occluded\<close>, so a write through it is a write to this field.\<close>

record entity_jump_sensor =
  occluded :: "32 word"
  sensor_body :: btGhostObject
  shape :: btBoxShape

text \<open>The constructor.\<close>

definition new_entity_jump_sensor :: "btVector3 \<Rightarrow> entity_jump_sensor" where
  "new_entity_jump_sensor half_dims_arg =
     (let sensor_dims = half_dims_arg;
          sensor_dims = vupd sensor_dims SIDE_DIM (vidx sensor_dims SIDE_DIM * 0.8);
          sensor_dims = vupd sensor_dims FWD_DIM (vidx sensor_dims FWD_DIM * 0.8);
          sensor_dims = vupd sensor_dims UP_DIM (vidx sensor_dims UP_DIM * 0.25)
      in \<lparr>occluded = 0,
          sensor_body = new_btGhostObject\<lparr>collisionFlags :=
            collisionFlags new_btGhostObject \<union> {CF_KINEMATIC_OBJECT, CF_NO_CONTACT_RESPONSE}\<rparr>,
          shape = btBoxShape sensor_dims\<rparr>)"

text \<open>\<^verbatim>\<open>update_jump_sensor_transform\<close>; \<open>he\<close> is the engine's
  \<^verbatim>\<open>getHalfExtentsWithoutMargin\<close>.\<close>

definition sensor_offset :: "(btBoxShape \<Rightarrow> btVector3) \<Rightarrow> btVector3 \<Rightarrow> entity_jump_sensor \<Rightarrow> btTransform" where
  "sensor_offset he half_dims_arg s =
     (let transform = getIdentity;
          translation = origin transform;
          translation = vadd translation
            (vscale (vscale FWD (vidx half_dims_arg FWD_DIM)) (2.0 - vidx (he (shape s)) FWD_DIM));
          translation = vadd translation
            (vscale (vscale UP (vidx half_dims_arg UP_DIM)) (- 0.5))
      in transform\<lparr>origin := translation\<rparr>)"

definition update_jump_sensor_transform ::
  "(btBoxShape \<Rightarrow> btVector3) \<Rightarrow> btVector3 \<Rightarrow> btTransform \<Rightarrow> entity_jump_sensor \<Rightarrow> entity_jump_sensor" where
  "update_jump_sensor_transform he half_dims_arg body_transform s =
     s\<lparr>sensor_body := (sensor_body s)\<lparr>ghost_worldTransform :=
          transform_mul body_transform (sensor_offset he half_dims_arg s)\<rparr>\<rparr>"

text \<open>\<^verbatim>\<open>jump_sensor_callback::addSingleResult\<close>: object 0 is the sensor, and the
  write goes through its user pointer.\<close>

definition addSingleResult :: "entity_jump_sensor \<Rightarrow> entity_jump_sensor" where
  "addSingleResult s = s\<lparr>occluded := occluded s OR 1\<rparr>"

text \<open>\<^verbatim>\<open>world->dynamicsWorld->contactPairTest(&body, other, contact_callback)\<close>:
  the engine calls the callback once per contact point it finds between the
  sensor and \<open>other\<close>; \<open>ct other\<close> is that number.  Every test is recorded.\<close>

definition contactPairTest ::
  "(obj_ref \<Rightarrow> nat) \<Rightarrow> obj_ref \<Rightarrow> entity_jump_sensor \<times> obj_ref list \<Rightarrow> entity_jump_sensor \<times> obj_ref list" where
  "contactPairTest ct other st =
     (case st of (s, tests) \<Rightarrow> ((addSingleResult ^^ ct other) s, tests @ [other]))"

text \<open>The loop of \<^verbatim>\<open>poll\<close> over the overlapping objects.\<close>

fun poll_loop ::
  "(obj_ref \<Rightarrow> nat) \<Rightarrow> obj_ref list \<Rightarrow> entity_jump_sensor \<times> obj_ref list \<Rightarrow> entity_jump_sensor \<times> obj_ref list" where
  "poll_loop ct [] st = st"
| "poll_loop ct (other # pairs) st = poll_loop ct pairs (contactPairTest ct other st)"

text \<open>\<^verbatim>\<open>poll\<close>: the result, the sensor afterwards, and the contact tests run.\<close>

definition poll :: "(obj_ref \<Rightarrow> nat) \<Rightarrow> entity_jump_sensor \<Rightarrow> bool \<times> entity_jump_sensor \<times> obj_ref list" where
  "poll ct s =
     (case poll_loop ct (overlappingObjects (sensor_body s)) (s, []) of
        (s1, tests) \<Rightarrow>
          (let ret = (occluded s1 = 1) in (ret, s1\<lparr>occluded := 0\<rparr>, tests)))"

subsection \<open>\<^verbatim>\<open>struct entity_collider\<close>\<close>

record entity_collider =
  body :: btRigidBody
  body_shape :: btBoxShape
  half_dims :: btVector3
  jump_sensor :: "entity_jump_sensor option"

definition has_jump_sensor :: "entity_collider \<Rightarrow> bool" where
  "has_jump_sensor c = (jump_sensor c \<noteq> None)"

text \<open>The calls a function makes on the engine's objects, in the order it makes
  them.\<close>

datatype engine_call =
    SetWorldTransform btTransform
  | SensorSetWorldTransform btTransform
  | ApplyCentralForce btVector3

text \<open>\<^verbatim>\<open>collider->body.setWorldTransform(t)\<close>.\<close>

definition body_setWorldTransform ::
  "btTransform \<Rightarrow> entity_collider \<times> engine_call list \<Rightarrow> entity_collider \<times> engine_call list" where
  "body_setWorldTransform t st =
     (case st of (c, calls) \<Rightarrow>
        (c\<lparr>body := (body c)\<lparr>worldTransform := t\<rparr>\<rparr>, calls @ [SetWorldTransform t]))"

text \<open>\<^verbatim>\<open>entity_collider::update_jump_sensor_transform()\<close> for a collider whose
  sensor is \<open>s\<close>: the sensor is placed against the body's current world
  transform.\<close>

definition collider_update_jump_sensor_transform ::
  "(btBoxShape \<Rightarrow> btVector3) \<Rightarrow> entity_jump_sensor
     \<Rightarrow> entity_collider \<times> engine_call list \<Rightarrow> entity_collider \<times> engine_call list" where
  "collider_update_jump_sensor_transform he s st =
     (case st of (c, calls) \<Rightarrow>
        (let s1 = update_jump_sensor_transform he (half_dims c) (worldTransform (body c)) s
         in (c\<lparr>jump_sensor := Some s1\<rparr>,
             calls @ [SensorSetWorldTransform (ghost_worldTransform (sensor_body s1))])))"

text \<open>\<^verbatim>\<open>collider->body.applyCentralForce(f)\<close>: the force is added to the body's
  pending force.\<close>

definition body_applyCentralForce ::
  "btVector3 \<Rightarrow> entity_collider \<times> engine_call list \<Rightarrow> entity_collider \<times> engine_call list" where
  "body_applyCentralForce f st =
     (case st of (c, calls) \<Rightarrow>
        (c\<lparr>body := (body c)\<lparr>totalForce := vadd (totalForce (body c)) f\<rparr>\<rparr>,
         calls @ [ApplyCentralForce f]))"

text \<open>The constructor of \<^verbatim>\<open>entity_collider\<close>.\<close>

definition new_entity_collider ::
  "(btBoxShape \<Rightarrow> btVector3) \<Rightarrow> btBoxShape \<Rightarrow> btRigidBody \<Rightarrow> btVector3 \<Rightarrow> bool \<Rightarrow> entity_collider" where
  "new_entity_collider he body_shape_arg body_info half_dims_arg add_jump_sensor =
     (let c = \<lparr>body = body_info\<lparr>angularFactor := UP\<rparr>, body_shape = body_shape_arg,
               half_dims = half_dims_arg, jump_sensor = None\<rparr>
      in if add_jump_sensor
         then fst (collider_update_jump_sensor_transform he
                     (new_entity_jump_sensor half_dims_arg) (c, []))
         else c)"

text \<open>\<^verbatim>\<open>entity_collider_create\<close>: the collider is allocated at the next address,
  its body is registered under \<open>COL_ENTITIES\<close>/\<open>COLMASK_ENTITY\<close> and tagged 600,
  and its sensor, if asked for, under
  \<open>COL_ENTITY_JUMP_SENSOR\<close>/\<open>COLMASK_ENTITY_JUMP_SENSOR\<close>.\<close>

definition entity_collider_create ::
  "(btBoxShape \<Rightarrow> btVector3) \<Rightarrow> dynworld \<Rightarrow> btVector3 \<Rightarrow> btVector3 \<Rightarrow> btScalar \<Rightarrow> btScalar \<Rightarrow> bool
     \<Rightarrow> dynworld \<times> entity_collider" where
  "entity_collider_create he w center half_extents friction_arg linear_damping jump_sensor_arg =
     (let dims = half_extents;
          pos = center;
          shape_new = btBoxShape dims;
          desc = new_btRigidBody 2.0 friction_arg linear_damping (getIdentity\<lparr>origin := pos\<rparr>);
          collider = new_entity_collider he shape_new desc dims jump_sensor_arg;
          a = next_addr w;
          objs = addCollisionObject (EntityBody a) COL_ENTITIES COLMASK_ENTITY (collisionObjects w);
          collider = collider\<lparr>body := (body collider)\<lparr>userPointer := 600\<rparr>\<rparr>;
          objs = (if jump_sensor_arg
                  then addCollisionObject (SensorBody a) COL_ENTITY_JUMP_SENSOR
                         COLMASK_ENTITY_JUMP_SENSOR objs
                  else objs)
      in (w\<lparr>collisionObjects := objs, next_addr := Suc a\<rparr>, collider))"

text \<open>\<^verbatim>\<open>entity_collider_get\<close>. The out-parameters \<open>pos\<close>, \<open>rot\<close> and
  \<open>jump_sensor_occluded\<close> are passed with their current contents and returned
  with their contents afterwards; \<open>ct\<close> answers the contact tests of the world
  that is passed in.  \<^verbatim>\<open>quatRotate(transform.getRotation(), FWD)\<close> is the
  basis applied to the forward axis.  The result is the return code, the
  collider, the three buffers and the contact tests run.\<close>

definition entity_collider_get ::
  "(obj_ref \<Rightarrow> nat) \<Rightarrow> entity_collider option \<Rightarrow> btVector3 \<Rightarrow> btScalar \<times> btScalar \<Rightarrow> bool
     \<Rightarrow> int \<times> entity_collider option \<times> btVector3 \<times> (btScalar \<times> btScalar) \<times> bool \<times> obj_ref list" where
  "entity_collider_get ct collider pos rot jump_sensor_occluded =
     (case collider of
        None \<Rightarrow> (- 1, collider, pos, rot, jump_sensor_occluded, [])
      | Some c \<Rightarrow>
         (let transform = interpolationWorldTransform (body c);
              position = origin transform;
              rotation = mat_vec (basis transform) FWD;
              pos1 = (vidx position 0, vidx position 1, vidx position 2);
              rot1 = (vidx rotation 0, vidx rotation 1)
          in case jump_sensor c of
               None \<Rightarrow> (0, Some c, pos1, rot1, jump_sensor_occluded, [])
             | Some s \<Rightarrow>
                (case poll ct s of
                   (r, s1, tests) \<Rightarrow> (0, Some (c\<lparr>jump_sensor := Some s1\<rparr>), pos1, rot1, r, tests))))"

definition entity_collider_get_pos ::
  "entity_collider option \<Rightarrow> btVector3 \<Rightarrow> int \<times> btVector3" where
  "entity_collider_get_pos collider pos =
     (case collider of
        None \<Rightarrow> (- 1, pos)
      | Some c \<Rightarrow>
         (let transform = interpolationWorldTransform (body c);
              position = origin transform
          in (0, (vidx position 0, vidx position 1, vidx position 2))))"

text \<open>\<^verbatim>\<open>entity_collider_set\<close>: the return code, the collider afterwards and the
  calls made, in order.\<close>

definition entity_collider_set ::
  "(btBoxShape \<Rightarrow> btVector3) \<Rightarrow> entity_collider option \<Rightarrow> btVector3 \<Rightarrow> btScalar \<Rightarrow> btVector3 \<Rightarrow> btScalar
     \<Rightarrow> int \<times> entity_collider option \<times> engine_call list" where
  "entity_collider_set he collider pos rot vel jump_force =
     (case collider of
        None \<Rightarrow> (- 1, collider, [])
      | Some c \<Rightarrow>
         (let transform = worldTransform (body c);
              new_pos = (vidx pos 0, vidx pos 1, vidx pos 2);
              transform = transform\<lparr>origin := new_pos\<rparr>;
              transform = transform\<lparr>basis := rotation_about_up rot\<rparr>;
              st = body_setWorldTransform transform (c, []);
              st = (case jump_sensor (fst st) of
                      None \<Rightarrow> st
                    | Some s \<Rightarrow> collider_update_jump_sensor_transform he s st);
              new_vel = (vidx vel 0, vidx vel 1, vidx vel 2);
              new_vel = vupd new_vel UP_DIM (vidx new_vel UP_DIM + jump_force);
              st = body_applyCentralForce new_vel st
          in (0, Some (fst st), snd st)))"

section \<open>Notions the properties are stated with\<close>

subsection \<open>Collision filtering and reachable worlds\<close>

text \<open>The engine's default broadphase filter: two registered objects are handed
  to the narrow phase only if each one's group meets the other's mask.\<close>

definition needsBroadphaseCollision :: "registration \<Rightarrow> registration \<Rightarrow> bool" where
  "needsBroadphaseCollision r0 r1 =
     (group r0 AND mask r1 \<noteq> 0 \<and> group r1 AND mask r0 \<noteq> 0)"

text \<open>A registration carries the group and mask of its kind of object.\<close>

definition registration_ok :: "registration \<Rightarrow> bool" where
  "registration_ok r =
     (case obj r of
        SlabBody a \<Rightarrow> group r = COL_WORLD \<and> mask r = COLMASK_WORLD
      | EntityBody a \<Rightarrow> group r = COL_ENTITIES \<and> mask r = COLMASK_ENTITY
      | SensorBody a \<Rightarrow>
          group r = COL_ENTITY_JUMP_SENSOR \<and> mask r = COLMASK_ENTITY_JUMP_SENSOR)"

text \<open>The worlds a client can build: a created world, changed by successful calls
  of the functions that take the world.\<close>

inductive world_reachable :: "(btBoxShape \<Rightarrow> btVector3) \<Rightarrow> dynworld \<Rightarrow> bool" for he where
  created: "world_reachable he (dynworld_create g)"
| slab_updated: "world_reachable he w \<Longrightarrow>
     slab_collider_update w prev slab_pos vs vc ixs ic = Inr ((w1, w2, w3, w'), a) \<Longrightarrow>
     world_reachable he w'"
| entity_created: "world_reachable he w \<Longrightarrow>
     entity_collider_create he w center half_extents fr ld js = (w', c) \<Longrightarrow> world_reachable he w'"
| drawer_set: "world_reachable he w \<Longrightarrow>
     dynworld_set_debug_drawer w d = Inr w' \<Longrightarrow> world_reachable he w'"
| debug_drawn: "world_reachable he w \<Longrightarrow>
     dynworld_debug_draw lines w b = Inr w' \<Longrightarrow> world_reachable he w'"

subsection \<open>Sequences of slab updates\<close>

type_synonym slab_args = "btVector3 \<times> btScalar list \<times> 64 word \<times> 32 word list \<times> 64 word"

fun is_slab :: "obj_ref \<Rightarrow> bool" where
  "is_slab (SlabBody a) = True"
| "is_slab (EntityBody a) = False"
| "is_slab (SensorBody a) = False"

text \<open>The slab bodies in the object array, and their number.\<close>

definition slab_objs :: "dynworld \<Rightarrow> obj_ref list" where
  "slab_objs w = filter is_slab (map obj (collisionObjects w))"

definition slab_count :: "dynworld \<Rightarrow> nat" where
  "slab_count w = length (slab_objs w)"

text \<open>The caller's buffers hold what the counts announce.\<close>

fun slab_args_ok :: "slab_args \<Rightarrow> bool" where
  "slab_args_ok (sp, vs, vc, ixs, ic) =
     (unat (vc * 3) \<le> length vs \<and> unat ic \<le> length ixs)"

text \<open>A client that keeps one slab: every call passes the handle the call before
  returned, on the world the call before left.  For each call the chain records
  the handle passed, the four worlds the call went through, and the handle
  returned.\<close>

fun slab_update_chain ::
  "dynworld \<Rightarrow> addr option \<Rightarrow> slab_args list
     \<Rightarrow> fault + (addr option \<times> (dynworld \<times> dynworld \<times> dynworld \<times> dynworld) \<times> addr) list" where
  "slab_update_chain w prev [] = Inr []"
| "slab_update_chain w prev ((sp, vs, vc, ixs, ic) # rest) =
     (case slab_collider_update w prev sp vs vc ixs ic of
        Inl e \<Rightarrow> Inl e
      | Inr ((w1, w2, w3, w4), h) \<Rightarrow>
         (case slab_update_chain w4 (Some h) rest of
            Inl e \<Rightarrow> Inl e
          | Inr tr \<Rightarrow> Inr ((prev, (w1, w2, w3, w4), h) # tr)))"

text \<open>No allocation lies at or beyond the next address to be handed out.\<close>

definition store_fresh :: "dynworld \<Rightarrow> bool" where
  "store_fresh w = (\<forall>a. next_addr w \<le> a \<longrightarrow> slabs w a = None)"

text \<open>What holds between two calls of the chain, and what holds of one recorded
  call: no slab body is registered from the removal of the previous body until
  the registration of the new one; the previous collider is freed before the new
  one exists and stays freed; the new collider exists, unregistered, after its
  construction; and at the end exactly its body is registered.\<close>

definition chain_inv :: "dynworld \<Rightarrow> addr option \<Rightarrow> bool" where
  "chain_inv w prev =
     (store_fresh w \<and>
      (case prev of
         None \<Rightarrow> slab_objs w = []
       | Some p \<Rightarrow> slab_objs w = [SlabBody p] \<and> slabs w p \<noteq> None))"

definition step_ok ::
  "addr option \<times> (dynworld \<times> dynworld \<times> dynworld \<times> dynworld) \<times> addr \<Rightarrow> bool" where
  "step_ok st =
     (case st of (prev, (w1, w2, w3, w4), h) \<Rightarrow>
        slab_count w1 = 0 \<and> slab_count w2 = 0 \<and> slab_count w3 = 0 \<and> slab_count w4 = 1
        \<and> (case prev of
              None \<Rightarrow> True
            | Some p \<Rightarrow> slabs w2 p = None \<and> slabs w3 p = None \<and> slabs w4 p = None)
        \<and> slabs w1 h = None \<and> slabs w2 h = None \<and> slabs w3 h \<noteq> None
        \<and> slab_objs w4 = [SlabBody h] \<and> slabs w4 h \<noteq> None)"

subsection \<open>Reachable sensors\<close>

text \<open>The states of a jump sensor: constructed, then any number of placements,
  of changes the broadphase makes to its overlap cache, and of polls.\<close>

inductive sensor_reachable :: "(btBoxShape \<Rightarrow> btVector3) \<Rightarrow> entity_jump_sensor \<Rightarrow> bool" for he where
  constructed: "sensor_reachable he (new_entity_jump_sensor h)"
| placed: "sensor_reachable he s \<Longrightarrow> sensor_reachable he (update_jump_sensor_transform he h bt s)"
| overlaps: "sensor_reachable he s \<Longrightarrow>
     sensor_reachable he (s\<lparr>sensor_body := (sensor_body s)\<lparr>overlappingObjects := os\<rparr>\<rparr>)"
| polled: "sensor_reachable he s \<Longrightarrow> sensor_reachable he (fst (snd (poll ct s)))"

subsection \<open>The specification's wording, for comparison with the code\<close>



section \<open>Properties\<close>

subsection \<open>Debug drawing\<close>

text \<open>
  Claim C2: on a world without an installed debug drawer, \<^verbatim>\<open>dynworld_debug_draw\<close>
  is a no-op.  The code does not test \<^verbatim>\<open>world->debugRenderer\<close>: on a fresh world
  the first statement writes through the null pointer, and after a drawer was
  removed (which frees the renderer and leaves the field as it was) it writes
  through the freed pointer.
\<close>

theorem dynworld_debug_draw_without_drawer:
  "dynworld_debug_draw lines (dynworld_create g) frame_blob_arg = Inl NullPointerDereference
   \<and> (\<exists>w1 w2. dynworld_set_debug_drawer (dynworld_create g) (Some f) = Inr w1
         \<and> dynworld_set_debug_drawer w1 None = Inr w2
         \<and> dynworld_debug_draw lines w2 frame_blob_arg = Inl UseAfterFree)"
  by (simp add: dynworld_debug_draw_def renderer_setFrameBlob_def dynworld_create_def
      dynworld_set_debug_drawer_def delete_debugRenderer_def Let_def)

subsection \<open>Collision groups\<close>

lemma group_facts:
  "COL_WORLD AND COLMASK_WORLD = 0" "COL_ENTITIES AND COLMASK_ENTITY = 0"
  "COL_ENTITY_JUMP_SENSOR AND COLMASK_ENTITY_JUMP_SENSOR = 0"
  "COL_WORLD AND COL_ENTITIES = 0" "COL_WORLD AND COL_ENTITY_JUMP_SENSOR = 0"
  "COL_ENTITIES AND COL_ENTITY_JUMP_SENSOR = 0"
  by (simp_all add: COL_WORLD_def COLMASK_WORLD_def COL_ENTITIES_def COLMASK_ENTITY_def
      COL_ENTITY_JUMP_SENSOR_def COLMASK_ENTITY_JUMP_SENSOR_def)

lemma objs_set_debug_drawer:
  "dynworld_set_debug_drawer w d = Inr w' \<Longrightarrow> collisionObjects w' = collisionObjects w"
  by (auto simp: dynworld_set_debug_drawer_def delete_debugRenderer_def Let_def
      split: option.splits sum.splits)

lemma objs_setFrameBlob:
  "renderer_setFrameBlob b w = Inr w' \<Longrightarrow> collisionObjects w' = collisionObjects w"
  by (auto simp: renderer_setFrameBlob_def split: option.splits)

lemma objs_debugDrawWorld:
  "debugDrawWorld lines w = Inr w' \<Longrightarrow> collisionObjects w' = collisionObjects w"
  by (auto simp: debugDrawWorld_def split: option.splits)

lemma objs_debug_draw:
  "dynworld_debug_draw lines w b = Inr w' \<Longrightarrow> collisionObjects w' = collisionObjects w"
  by (auto simp: dynworld_debug_draw_def split: sum.splits
      dest!: objs_setFrameBlob objs_debugDrawWorld)

lemma steps_cases:
  assumes "slab_collider_update w prev sp vs vc ixs ic = Inr ((w1, w2, w3, w4), a)"
  shows "slab_remove_prev w prev = Inr w1 \<and> w2 = slab_delete_prev w1 prev
       \<and> slab_new w2 sp (take (unat (vc * 3)) vs) vc (take (unat ic) ixs) ic = (w3, a)
       \<and> w4 = slab_register w3 a"
  using assms
  by (auto simp: slab_collider_update_def Let_def split: if_splits sum.splits prod.splits)

lemma objs_remove_prev:
  "slab_remove_prev w prev = Inr w' \<Longrightarrow> set (collisionObjects w') \<subseteq> set (collisionObjects w)"
  by (auto simp: slab_remove_prev_def removeRigidBody_def split: option.splits)

lemma objs_delete_prev: "collisionObjects (slab_delete_prev w prev) = collisionObjects w"
  by (simp add: slab_delete_prev_def split: option.splits)

lemma objs_slab_new:
  "slab_new w sp vs vc ixs ic = (w', a) \<Longrightarrow> collisionObjects w' = collisionObjects w"
  by (auto simp: slab_new_def Let_def)

lemma objs_slab_register:
  "collisionObjects (slab_register w a) =
     collisionObjects w @ [\<lparr>obj = SlabBody a, group = COL_WORLD, mask = COLMASK_WORLD\<rparr>]"
  by (simp add: slab_register_def addCollisionObject_def)

lemma ok_slab_update:
  assumes "\<forall>r\<in>set (collisionObjects w). registration_ok r"
    and "slab_collider_update w prev sp vs vc ixs ic = Inr ((w1, w2, w3, w'), a)"
  shows "\<forall>r\<in>set (collisionObjects w'). registration_ok r"
proof -
  from steps_cases [OF assms(2)] have r: "slab_remove_prev w prev = Inr w1"
    and d: "w2 = slab_delete_prev w1 prev"
    and n: "slab_new w2 sp (take (unat (vc * 3)) vs) vc (take (unat ic) ixs) ic = (w3, a)"
    and g: "w' = slab_register w3 a"
    by blast+
  from objs_remove_prev [OF r] assms(1)
  have "\<forall>r\<in>set (collisionObjects w1). registration_ok r" by blast
  then have "\<forall>r\<in>set (collisionObjects w3). registration_ok r"
    by (simp add: objs_slab_new [OF n] d objs_delete_prev)
  then show ?thesis
    by (auto simp: g objs_slab_register registration_ok_def)
qed

lemma ok_entity_create:
  assumes "\<forall>r\<in>set (collisionObjects w). registration_ok r"
    and "entity_collider_create he w center half_extents fr ld js = (w', c)"
  shows "\<forall>r\<in>set (collisionObjects w'). registration_ok r"
  using assms
  by (auto simp: entity_collider_create_def Let_def addCollisionObject_def registration_ok_def
      split: if_splits)

lemma world_reachable_ok:
  "world_reachable he w \<Longrightarrow> \<forall>r\<in>set (collisionObjects w). registration_ok r"
proof (induction rule: world_reachable.induct)
  case (created g)
  show ?case by (simp add: dynworld_create_def)
next
  case (slab_updated w prev slab_pos vs vc ixs ic w1 w2 w3 w' a)
  then show ?case using ok_slab_update by blast
next
  case (entity_created w center half_extents fr ld js w' c)
  then show ?case using ok_entity_create by blast
next
  case (drawer_set w d w')
  then show ?case by (simp add: objs_set_debug_drawer)
next
  case (debug_drawn lines w b w')
  then show ?case by (simp add: objs_debug_draw)
qed

lemma ok_same_group:
  assumes "registration_ok r0" "registration_ok r1" "group r0 = group r1"
  shows "\<not> needsBroadphaseCollision r0 r1"
  using assms group_facts
  by (auto simp: registration_ok_def needsBroadphaseCollision_def COLMASK_ENTITY_def
      COLMASK_ENTITY_JUMP_SENSOR_def split: obj_ref.splits)

lemma ok_cases:
  assumes "registration_ok r"
  shows "(group r = COL_WORLD \<and> mask r = COL_ENTITIES OR COL_ENTITY_JUMP_SENSOR)
       \<or> (group r = COL_ENTITIES \<and> mask r = COL_WORLD)
       \<or> (group r = COL_ENTITY_JUMP_SENSOR \<and> mask r = COL_WORLD)"
  using assms
  by (auto simp: registration_ok_def COLMASK_ENTITY_def COLMASK_WORLD_def
      COLMASK_ENTITY_JUMP_SENSOR_def split: obj_ref.splits)

text \<open>
  Claim C4: in every world built by the bridge, each registered object carries the
  group and mask of its kind: a slab body \<open>COL_WORLD\<close> with mask
  \<open>COL_ENTITIES OR COL_ENTITY_JUMP_SENSOR\<close>, an entity body \<open>COL_ENTITIES\<close> with
  mask \<open>COL_WORLD\<close>, a sensor \<open>COL_ENTITY_JUMP_SENSOR\<close> with mask \<open>COL_WORLD\<close>;
  the three group bits are disjoint; and two registered objects of the same group
  never pass the broadphase filter, so they produce no contact.
\<close>

theorem registered_groups_and_masks:
  assumes "world_reachable he w"
  shows "(\<forall>r\<in>set (collisionObjects w). registration_ok r \<and>
            ((group r = COL_WORLD \<and> mask r = COL_ENTITIES OR COL_ENTITY_JUMP_SENSOR)
           \<or> (group r = COL_ENTITIES \<and> mask r = COL_WORLD)
           \<or> (group r = COL_ENTITY_JUMP_SENSOR \<and> mask r = COL_WORLD)))
       \<and> (\<forall>r0\<in>set (collisionObjects w). \<forall>r1\<in>set (collisionObjects w).
            group r0 = group r1 \<longrightarrow> \<not> needsBroadphaseCollision r0 r1)
       \<and> COL_WORLD AND COL_ENTITIES = 0 \<and> COL_WORLD AND COL_ENTITY_JUMP_SENSOR = 0
       \<and> COL_ENTITIES AND COL_ENTITY_JUMP_SENSOR = 0"
  using world_reachable_ok [OF assms] ok_same_group ok_cases group_facts(4-6)
  by blast

text \<open>The theorem at a world with a slab and an entity with a jump sensor.\<close>

theorem registered_groups_and_masks_witness:
  "world_reachable box_dims
     (fst (entity_collider_create box_dims
        (snd (snd (snd (fst (projr
           (slab_collider_update (dynworld_create (- 9.8)) None (0, 0, 0) [] 0 [] 0))))))
        (0, 0, 10) (0.5, 0.5, 1) 0.2 0.8 True))
   \<and> map (\<lambda>r. (obj r, group r, mask r))
        (collisionObjects (fst (entity_collider_create box_dims
          (snd (snd (snd (fst (projr
           (slab_collider_update (dynworld_create (- 9.8)) None (0, 0, 0) [] 0 [] 0))))))
          (0, 0, 10) (0.5, 0.5, 1) 0.2 0.8 True)))
      = [(SlabBody 1, 1024, 6144), (EntityBody 2, 2048, 1024), (SensorBody 2, 4096, 1024)]
   \<and> list_all registration_ok
        (collisionObjects (fst (entity_collider_create box_dims
          (snd (snd (snd (fst (projr
           (slab_collider_update (dynworld_create (- 9.8)) None (0, 0, 0) [] 0 [] 0))))))
          (0, 0, 10) (0.5, 0.5, 1) 0.2 0.8 True)))"
proof -
  let ?w0 = "dynworld_create (- 9.8)"
  let ?u = "slab_collider_update ?w0 None (0, 0, 0) [] 0 [] 0"
  let ?w1 = "snd (snd (snd (fst (projr ?u))))"
  let ?w2 = "fst (entity_collider_create box_dims ?w1 (0, 0, 10) (0.5, 0.5, 1) 0.2 0.8 True)"
  have u: "?u = Inr ((fst (fst (projr ?u)), fst (snd (fst (projr ?u))),
                      fst (snd (snd (fst (projr ?u)))), ?w1), snd (projr ?u))"
    by (simp add: slab_collider_update_def slab_remove_prev_def Let_def split: prod.splits)
  have r1: "world_reachable box_dims ?w1"
    by (rule world_reachable.slab_updated [OF world_reachable.created u])
  have r2: "world_reachable box_dims ?w2"
    by (rule world_reachable.entity_created [OF r1, of "(0, 0, 10)" "(0.5, 0.5, 1)" "0.2" "0.8" True _
          "snd (entity_collider_create box_dims ?w1 (0, 0, 10) (0.5, 0.5, 1) 0.2 0.8 True)"]) simp
  have objs: "map (\<lambda>r. (obj r, group r, mask r)) (collisionObjects ?w2)
      = [(SlabBody 1, 1024, 6144), (EntityBody 2, 2048, 1024), (SensorBody 2, 4096, 1024)]"
    by (simp add: entity_collider_create_def slab_collider_update_def
        slab_collider_update_def slab_remove_prev_def slab_delete_prev_def slab_new_def
        slab_register_def dynworld_create_def Let_def
        addCollisionObject_def COL_WORLD_def COLMASK_WORLD_def COL_ENTITIES_def COLMASK_ENTITY_def
        COL_ENTITY_JUMP_SENSOR_def COLMASK_ENTITY_JUMP_SENSOR_def)
  from registered_groups_and_masks [OF r2]
  have "list_all registration_ok (collisionObjects ?w2)"
    by (simp add: list_all_iff)
  with r2 objs show ?thesis by simp
qed

subsection \<open>Slab updates\<close>

text \<open>The mesh counts are stored in \<^verbatim>\<open>int\<close> fields: a count of \<open>2^31\<close> indices
  is read as a negative number of triangles.\<close>

lemma int_narrowing:
  "int_div (int_of_size_t 2147483648) 3 = - 715827882"
  "int_div (int_of_size_t 7) 3 = 2"
  "int_of_size_t 4294967299 = 3"
  by (simp_all add: int_div_def int_of_size_t_def)

lemma slab_objs_remove:
  "filter is_slab (map obj (removeRigidBody b xs)) = filter (\<lambda>x. x \<noteq> b) (filter is_slab (map obj xs))"
  by (induction xs) (auto simp: removeRigidBody_def)

lemma fresh_set_debug_drawer:
  "dynworld_set_debug_drawer w d = Inr w' \<Longrightarrow> store_fresh w \<Longrightarrow> store_fresh w'"
  by (auto simp: dynworld_set_debug_drawer_def delete_debugRenderer_def Let_def store_fresh_def
      split: option.splits sum.splits)

lemma fresh_debug_draw:
  "dynworld_debug_draw lines w b = Inr w' \<Longrightarrow> store_fresh w \<Longrightarrow> store_fresh w'"
  by (auto simp: dynworld_debug_draw_def renderer_setFrameBlob_def debugDrawWorld_def
      store_fresh_def split: option.splits sum.splits)

lemma fresh_entity_create:
  "entity_collider_create he w center half_extents fr ld js = (w', c) \<Longrightarrow>
     store_fresh w \<Longrightarrow> store_fresh w'"
  by (auto simp: entity_collider_create_def Let_def store_fresh_def)

lemma fresh_steps:
  assumes "slab_collider_update w prev sp vs vc ixs ic = Inr ((w1, w2, w3, w4), a)"
    and "store_fresh w"
  shows "store_fresh w4"
  using steps_cases [OF assms(1)] assms(2)
  by (auto simp: slab_remove_prev_def slab_delete_prev_def slab_new_def slab_register_def
      Let_def store_fresh_def split: option.splits)

lemma world_reachable_fresh: "world_reachable he w \<Longrightarrow> store_fresh w"
proof (induction rule: world_reachable.induct)
  case (created g)
  show ?case by (simp add: dynworld_create_def store_fresh_def)
next
  case (slab_updated w prev slab_pos vs vc ixs ic w1 w2 w3 w' a)
  from fresh_steps [OF slab_updated.hyps(2) slab_updated.IH] show ?case .
next
  case (entity_created w center half_extents fr ld js w' c)
  then show ?case using fresh_entity_create by blast
next
  case (drawer_set w d w')
  then show ?case using fresh_set_debug_drawer by blast
next
  case (debug_drawn lines w b w')
  then show ?case using fresh_debug_draw by blast
qed

lemma slab_objs_removed:
  "slab_objs (w\<lparr>collisionObjects := removeRigidBody b (collisionObjects w)\<rparr>)
     = filter (\<lambda>x. x \<noteq> b) (slab_objs w)"
  by (simp add: slab_objs_def slab_objs_remove)

lemma slab_objs_delete: "slab_objs (slab_delete_prev w prev) = slab_objs w"
  by (simp add: slab_objs_def slab_delete_prev_def split: option.splits)

lemma slab_objs_register: "slab_objs (slab_register w a) = slab_objs w @ [SlabBody a]"
  by (simp add: slab_objs_def slab_register_def addCollisionObject_def)

lemma slab_new_props:
  assumes "slab_new w sp vs vc ixs ic = (w3, a)"
  shows "a = next_addr w" and "slab_objs w3 = slab_objs w" and "slabs w3 a \<noteq> None"
    and "next_addr w3 = Suc (next_addr w)"
    and "\<And>b. b \<noteq> next_addr w \<Longrightarrow> slabs w3 b = slabs w b"
  using assms by (auto simp: slab_new_def Let_def slab_objs_def)

lemma slabs_register:
  "(slabs (slab_register w a) b = None) = (slabs w b = None)"
  "next_addr (slab_register w a) = next_addr w"
  by (simp_all add: slab_register_def)

lemma slabs_delete:
  "slabs (slab_delete_prev w (Some p)) a = (if a = p then None else slabs w a)"
  "slab_delete_prev w None = w"
  "next_addr (slab_delete_prev w prev) = next_addr w"
  by (simp_all add: slab_delete_prev_def split: option.splits)

lemma update_step:
  assumes inv: "chain_inv w prev" and ok: "slab_args_ok (sp, vs, vc, ixs, ic)"
  shows "\<exists>w1 w2 w3 w4 h. slab_collider_update w prev sp vs vc ixs ic = Inr ((w1, w2, w3, w4), h)
           \<and> step_ok (prev, (w1, w2, w3, w4), h) \<and> chain_inv w4 (Some h)"
proof -
  from inv have f: "store_fresh w" by (simp add: chain_inv_def)
  then have n: "slabs w (next_addr w) = None" by (simp add: store_fresh_def)
  let ?h = "next_addr w"
  obtain w1 where r: "slab_remove_prev w prev = Inr w1"
    and o1: "slab_objs w1 = []" and s1: "slabs w1 = slabs w" and a1: "next_addr w1 = next_addr w"
  proof (cases prev)
    case None
    with inv have "slab_objs w = []" by (simp add: chain_inv_def)
    with None that [of w] show ?thesis by (simp add: slab_remove_prev_def)
  next
    case (Some p)
    with inv have e: "slab_objs w = [SlabBody p]" and l: "slabs w p \<noteq> None"
      by (simp_all add: chain_inv_def)
    let ?w1 = "w\<lparr>collisionObjects := removeRigidBody (SlabBody p) (collisionObjects w)\<rparr>"
    have "slab_remove_prev w prev = Inr ?w1"
      using Some l by (auto simp: slab_remove_prev_def)
    moreover have "slab_objs ?w1 = []" by (simp add: slab_objs_removed e)
    ultimately show ?thesis using that [of ?w1] by simp
  qed
  let ?w2 = "slab_delete_prev w1 prev"
  have a2: "next_addr ?w2 = ?h" by (simp add: slabs_delete a1)
  obtain w3 a where sn: "slab_new ?w2 sp (take (unat (vc * 3)) vs) vc (take (unat ic) ixs) ic = (w3, a)"
    by (cases "slab_new ?w2 sp (take (unat (vc * 3)) vs) vc (take (unat ic) ixs) ic")
  note np = slab_new_props [OF sn]
  from np(1) a2 have ah: "a = ?h" by simp
  let ?w4 = "slab_register w3 ?h"
  have s: "slab_collider_update w prev sp vs vc ixs ic = Inr ((w1, ?w2, w3, ?w4), ?h)"
    using ok r ah by (simp add: slab_collider_update_def Let_def sn)
  have h2: "slabs ?w2 ?h = None"
    using n s1 by (cases prev) (simp_all add: slabs_delete)
  have l3: "slabs w3 ?h \<noteq> None"
    using np(3) ah by simp
  have l4: "slabs ?w4 ?h \<noteq> None"
    unfolding slabs_register(1) by (rule l3)
  have o: "slab_objs ?w2 = []" "slab_objs w3 = []" "slab_objs ?w4 = [SlabBody ?h]"
    by (simp_all add: slab_objs_delete np(2) slab_objs_register o1)
  have p34: "case prev of None \<Rightarrow> True
             | Some p \<Rightarrow> slabs ?w2 p = None \<and> slabs w3 p = None \<and> slabs ?w4 p = None"
  proof (cases prev)
    case None
    then show ?thesis by simp
  next
    case (Some p)
    with inv have "slabs w p \<noteq> None" by (simp add: chain_inv_def)
    with n have ph: "p \<noteq> ?h" by auto
    have q: "slabs (slab_delete_prev w1 (Some p)) p = None" by (simp add: slabs_delete)
    from ph have "slabs w3 p = slabs (slab_delete_prev w1 prev) p"
      using np(5) [of p] a2 by simp
    with q Some show ?thesis by (simp add: slabs_register)
  qed
  have st: "step_ok (prev, (w1, ?w2, w3, ?w4), ?h)"
    unfolding step_ok_def
    using o o1 p34 h2 l3 l4 n s1
    by (simp add: slab_count_def)
  have "store_fresh ?w4"
    unfolding store_fresh_def
  proof (intro allI impI)
    fix b assume "next_addr ?w4 \<le> b"
    then have g: "Suc ?h \<le> b" by (simp add: slabs_register np(4) a2)
    then have "slabs w b = None" using f by (simp add: store_fresh_def)
    then have "slabs ?w2 b = None" using s1 by (cases prev) (simp_all add: slabs_delete)
    moreover from g have "slabs w3 b = slabs ?w2 b" using np(5) [of b] a2 by simp
    ultimately show "slabs ?w4 b = None" by (simp add: slabs_register)
  qed
  then have "chain_inv ?w4 (Some ?h)"
    using o l4 by (simp add: chain_inv_def)
  with s st show ?thesis by blast
qed

lemma chain_total:
  "chain_inv w prev \<Longrightarrow> \<forall>a\<in>set cs. slab_args_ok a \<Longrightarrow>
     \<exists>tr. slab_update_chain w prev cs = Inr tr \<and> length tr = length cs \<and> (\<forall>st\<in>set tr. step_ok st)"
proof (induction cs arbitrary: w prev)
  case Nil
  then show ?case by simp
next
  case (Cons a cs)
  obtain sp vs vc ixs ic where a: "a = (sp, vs, vc, ixs, ic)" by (cases a)
  from Cons.prems have ok: "slab_args_ok (sp, vs, vc, ixs, ic)" by (simp add: a)
  from update_step [OF Cons.prems(1) ok] obtain w1 w2 w3 w4 h where
    u: "slab_collider_update w prev sp vs vc ixs ic = Inr ((w1, w2, w3, w4), h)"
    and s: "step_ok (prev, (w1, w2, w3, w4), h)" and i: "chain_inv w4 (Some h)"
    by blast
  from Cons.IH [OF i] Cons.prems(2) obtain tr where
    t: "slab_update_chain w4 (Some h) cs = Inr tr" "length tr = length cs" "\<forall>st\<in>set tr. step_ok st"
    by auto
  show ?case by (simp add: a u t s)
qed

text \<open>
  Claim C5, as the code has it: along every sequence of \<^verbatim>\<open>slab_collider_update\<close>
  calls in which each call passes the handle the call before returned (the first
  passes null), on a world the bridge has built, without a slab, and with buffers
  as long as announced, every call succeeds and goes through four worlds.  No slab
  body is registered after the removal of the previous body, after the deletion
  of the previous collider and after the construction of the new one; exactly
  one, that of the returned handle, is registered at the end.  The previous
  collider is freed before the new one exists and is still freed at the end; the
  new collider exists from its construction on.
\<close>

theorem slab_update_chain_one_slab:
  assumes "world_reachable he w" and "slab_count w = 0" and "\<forall>a\<in>set cs. slab_args_ok a"
  shows "\<exists>tr. slab_update_chain w None cs = Inr tr \<and> length tr = length cs
       \<and> (\<forall>(prev, (w1, w2, w3, w4), h)\<in>set tr.
             slab_count w1 = 0 \<and> slab_count w2 = 0 \<and> slab_count w3 = 0 \<and> slab_count w4 = 1
             \<and> (case prev of
                   None \<Rightarrow> True
                 | Some p \<Rightarrow> slabs w2 p = None \<and> slabs w3 p = None \<and> slabs w4 p = None)
             \<and> slabs w1 h = None \<and> slabs w2 h = None \<and> slabs w3 h \<noteq> None
             \<and> slab_objs w4 = [SlabBody h] \<and> slabs w4 h \<noteq> None)"
proof -
  have "chain_inv w None"
    using world_reachable_fresh [OF assms(1)] assms(2)
    by (simp add: chain_inv_def slab_count_def)
  from chain_total [OF this assms(3)] show ?thesis
    by (auto simp: step_ok_def)
qed

text \<open>The theorem on a chain of two updates of a fresh world: the second call is
  passed the handle 1 that the first returned, and returns the handle 2.\<close>

theorem slab_update_chain_one_slab_witness:
  "world_reachable box_dims (dynworld_create 0) \<and> slab_count (dynworld_create 0) = 0
   \<and> (\<exists>tr. slab_update_chain (dynworld_create 0) None
              [((0, 0, 0), [], 0, [], 0), ((0, 0, 1), [1, 2, 3], 1, [0, 0, 0], 3)] = Inr tr
          \<and> map (\<lambda>(prev, sts, h). (prev, h)) tr = [(None, 1), (Some 1, 2)])"
proof -
  have h0: "world_reachable box_dims (dynworld_create 0)"
    by (rule world_reachable.created)
  have h1: "slab_count (dynworld_create 0) = 0"
    by (simp add: slab_count_def slab_objs_def dynworld_create_def)
  have h2: "\<forall>a\<in>set [((0, 0, 0), [], 0, [], 0), ((0, 0, 1), [1, 2, 3], 1, [0, 0, 0], 3)].
              slab_args_ok a"
    by simp
  have c: "map (\<lambda>(prev, sts, h). (prev, h))
             (projr (slab_update_chain (dynworld_create 0) None
                [((0, 0, 0), [], 0, [], 0), ((0, 0, 1), [1, 2, 3], 1, [0, 0, 0], 3)]))
           = [(None, 1), (Some 1, 2)]"
    by (simp add: slab_collider_update_def slab_remove_prev_def slab_delete_prev_def
        slab_new_def slab_register_def dynworld_create_def Let_def)
  from slab_update_chain_one_slab [OF h0 h1 h2] obtain tr where
    "slab_update_chain (dynworld_create 0) None
       [((0, 0, 0), [], 0, [], 0), ((0, 0, 1), [1, 2, 3], 1, [0, 0, 0], 3)] = Inr tr"
    by blast
  with c h0 h1 show ?thesis by simp
qed

text \<open>Claim C5 as stated fails for a sequence that passes null twice: both slab
  bodies stay registered.\<close>

theorem slab_update_null_prev_counterexample:
  "(case slab_collider_update (dynworld_create 0) None (0, 0, 0) [] 0 [] 0 of
     Inl e \<Rightarrow> None
   | Inr ((u1, u2, u3, w1), h1) \<Rightarrow>
      (case slab_collider_update w1 None (0, 0, 0) [] 0 [] 0 of
         Inl e \<Rightarrow> None
       | Inr ((v1, v2, v3, w2), h2) \<Rightarrow> Some (slab_count w2))) = Some 2"
  by (simp add: slab_collider_update_def slab_remove_prev_def
      slab_delete_prev_def slab_new_def slab_register_def Let_def
      dynworld_create_def addCollisionObject_def slab_count_def slab_objs_def)

subsection \<open>The jump sensor\<close>

lemma addSingleResult_funpow_occluded:
  "occluded ((addSingleResult ^^ n) s) = (if n = 0 then occluded s else occluded s OR 1)"
  by (induction n) (auto simp: addSingleResult_def or.assoc)

lemma addSingleResult_funpow_body:
  "sensor_body ((addSingleResult ^^ n) s) = sensor_body s"
  by (induction n) (auto simp: addSingleResult_def)

lemma poll_loop_tests:
  "snd (poll_loop ct os (s, tests)) = tests @ os"
  by (induction os arbitrary: s tests) (auto simp: contactPairTest_def)

lemma poll_loop_occluded:
  "occluded (fst (poll_loop ct os (s, tests))) =
     (if \<exists>x\<in>set os. 0 < ct x then occluded s OR 1 else occluded s)"
proof (induction os arbitrary: s tests)
  case Nil
  then show ?case by simp
next
  case (Cons x os)
  show ?case
    by (simp add: contactPairTest_def Cons.IH addSingleResult_funpow_occluded or.assoc)
qed

lemma poll_loop_body:
  "sensor_body (fst (poll_loop ct os (s, tests))) = sensor_body s"
  by (induction os arbitrary: s tests) (auto simp: contactPairTest_def addSingleResult_funpow_body)

lemma poll_clears: "occluded (fst (snd (poll ct s))) = 0"
  by (simp add: poll_def Let_def split: prod.splits)

lemma poll_body: "sensor_body (fst (snd (poll ct s))) = sensor_body s"
proof -
  obtain s1 tests where p: "poll_loop ct (overlappingObjects (sensor_body s)) (s, []) = (s1, tests)"
    by (cases "poll_loop ct (overlappingObjects (sensor_body s)) (s, [])")
  have "sensor_body s1 = sensor_body s"
    using poll_loop_body [of ct "overlappingObjects (sensor_body s)" s "[]"] p by simp
  then show ?thesis by (simp add: poll_def p Let_def)
qed

lemma poll_result:
  "fst (poll ct s) =
     ((if \<exists>x\<in>set (overlappingObjects (sensor_body s)). 0 < ct x
       then occluded s OR 1 else occluded s) = 1)"
proof -
  obtain s1 tests where p: "poll_loop ct (overlappingObjects (sensor_body s)) (s, []) = (s1, tests)"
    by (cases "poll_loop ct (overlappingObjects (sensor_body s)) (s, [])")
  have "occluded s1 =
      (if \<exists>x\<in>set (overlappingObjects (sensor_body s)). 0 < ct x
       then occluded s OR 1 else occluded s)"
    using poll_loop_occluded [of ct "overlappingObjects (sensor_body s)" s "[]"] p by simp
  then show ?thesis by (simp add: poll_def p Let_def)
qed

lemma poll_tests: "snd (snd (poll ct s)) = overlappingObjects (sensor_body s)"
proof -
  obtain s1 tests where p: "poll_loop ct (overlappingObjects (sensor_body s)) (s, []) = (s1, tests)"
    by (cases "poll_loop ct (overlappingObjects (sensor_body s)) (s, [])")
  have "tests = overlappingObjects (sensor_body s)"
    using poll_loop_tests [of ct "overlappingObjects (sensor_body s)" s "[]"] p by simp
  then show ?thesis by (simp add: poll_def p Let_def)
qed

lemma new_sensor_occluded: "occluded (new_entity_jump_sensor h) = 0"
  by (simp add: new_entity_jump_sensor_def Let_def)

lemma sensor_reachable_occluded: "sensor_reachable he s \<Longrightarrow> occluded s = 0"
proof (induction rule: sensor_reachable.induct)
  case (constructed h)
  show ?case by (rule new_sensor_occluded)
next
  case (placed s h bt)
  then show ?case by (simp add: update_jump_sensor_transform_def)
next
  case (overlaps s os)
  then show ?case by simp
next
  case (polled s ct)
  show ?case by (rule poll_clears)
qed

text \<open>
  Claim C3: for every sensor a client can reach, \<^verbatim>\<open>poll\<close> returns true exactly
  when the contact test against some overlapping object reported a contact during
  this poll; the occlusion bit is zero when it returns; it runs one contact test
  per overlapping object, so with no overlapping object it returns false and runs
  none.
\<close>

theorem poll_reports_contacts_of_this_poll:
  assumes "sensor_reachable he s"
  shows "fst (poll ct s) = (\<exists>x\<in>set (overlappingObjects (sensor_body s)). 0 < ct x)
     \<and> occluded (fst (snd (poll ct s))) = 0
     \<and> snd (snd (poll ct s)) = overlappingObjects (sensor_body s)
     \<and> (overlappingObjects (sensor_body s) = [] \<longrightarrow>
          \<not> fst (poll ct s) \<and> snd (snd (poll ct s)) = [])"
  using sensor_reachable_occluded [OF assms]
  by (simp add: poll_result poll_clears poll_tests)

text \<open>The theorem at a placed sensor that overlaps an entity body without contact
  and a slab body with two contact points.\<close>

theorem poll_reports_contacts_of_this_poll_witness:
  "sensor_reachable box_dims
     ((update_jump_sensor_transform box_dims (0.5, 0.5, 1) getIdentity
         (new_entity_jump_sensor (0.5, 0.5, 1)))
      \<lparr>sensor_body := (sensor_body (update_jump_sensor_transform box_dims (0.5, 0.5, 1) getIdentity
         (new_entity_jump_sensor (0.5, 0.5, 1))))\<lparr>overlappingObjects := [EntityBody 2, SlabBody 1]\<rparr>\<rparr>)
   \<and> fst (poll (\<lambda>x. if x = SlabBody 1 then 2 else 0)
       ((update_jump_sensor_transform box_dims (0.5, 0.5, 1) getIdentity
         (new_entity_jump_sensor (0.5, 0.5, 1)))
      \<lparr>sensor_body := (sensor_body (update_jump_sensor_transform box_dims (0.5, 0.5, 1) getIdentity
         (new_entity_jump_sensor (0.5, 0.5, 1))))\<lparr>overlappingObjects := [EntityBody 2, SlabBody 1]\<rparr>\<rparr>))
   \<and> snd (snd (poll (\<lambda>x. if x = SlabBody 1 then 2 else 0)
       ((update_jump_sensor_transform box_dims (0.5, 0.5, 1) getIdentity
         (new_entity_jump_sensor (0.5, 0.5, 1)))
      \<lparr>sensor_body := (sensor_body (update_jump_sensor_transform box_dims (0.5, 0.5, 1) getIdentity
         (new_entity_jump_sensor (0.5, 0.5, 1))))\<lparr>overlappingObjects := [EntityBody 2, SlabBody 1]\<rparr>\<rparr>)))
       = [EntityBody 2, SlabBody 1]"
proof -
  let ?s = "update_jump_sensor_transform box_dims (0.5, 0.5, 1) getIdentity
              (new_entity_jump_sensor (0.5, 0.5, 1))"
  let ?s1 = "?s\<lparr>sensor_body := (sensor_body ?s)\<lparr>overlappingObjects := [EntityBody 2, SlabBody 1]\<rparr>\<rparr>"
  have r: "sensor_reachable box_dims ?s1"
    by (intro sensor_reachable.overlaps sensor_reachable.placed sensor_reachable.constructed)
  from poll_reports_contacts_of_this_poll [OF r, of "\<lambda>x. if x = SlabBody 1 then 2 else 0"] r
  show ?thesis by simp
qed

text \<open>
  Claim C10: the occlusion bit of every reachable sensor is zero outside a poll
  (zero at construction, untouched by placement and by the broadphase, zero again
  when a poll returns), so two sensors with the same overlapping objects answer a
  poll alike, whatever their earlier polls reported.
\<close>

theorem occluded_zero_between_polls:
  assumes "sensor_reachable he s" and "sensor_reachable he s'"
    and "overlappingObjects (sensor_body s) = overlappingObjects (sensor_body s')"
  shows "occluded s = 0 \<and> occluded (fst (snd (poll ct s))) = 0
     \<and> fst (poll ct s) = fst (poll ct s')"
  using sensor_reachable_occluded [OF assms(1)] sensor_reachable_occluded [OF assms(2)] assms(3)
  by (simp add: poll_result poll_clears)

text \<open>The theorem at a sensor whose previous poll found a contact: the next poll,
  without contact, answers like a freshly constructed sensor, with false.\<close>

theorem occluded_zero_between_polls_witness:
  "fst (poll (\<lambda>x. 1)
     ((new_entity_jump_sensor (0.5, 0.5, 1))
        \<lparr>sensor_body := (sensor_body (new_entity_jump_sensor (0.5, 0.5, 1)))
           \<lparr>overlappingObjects := [SlabBody 1]\<rparr>\<rparr>))
   \<and> fst (poll (\<lambda>x. 0)
       (fst (snd (poll (\<lambda>x. 1)
         ((new_entity_jump_sensor (0.5, 0.5, 1))
            \<lparr>sensor_body := (sensor_body (new_entity_jump_sensor (0.5, 0.5, 1)))
               \<lparr>overlappingObjects := [SlabBody 1]\<rparr>\<rparr>)))))
     = fst (poll (\<lambda>x. 0)
         ((new_entity_jump_sensor (0.5, 0.5, 1))
            \<lparr>sensor_body := (sensor_body (new_entity_jump_sensor (0.5, 0.5, 1)))
               \<lparr>overlappingObjects := [SlabBody 1]\<rparr>\<rparr>))
   \<and> \<not> fst (poll (\<lambda>x. 0)
       (fst (snd (poll (\<lambda>x. 1)
         ((new_entity_jump_sensor (0.5, 0.5, 1))
            \<lparr>sensor_body := (sensor_body (new_entity_jump_sensor (0.5, 0.5, 1)))
               \<lparr>overlappingObjects := [SlabBody 1]\<rparr>\<rparr>)))))"
proof -
  let ?s = "(new_entity_jump_sensor (0.5, 0.5, 1))
        \<lparr>sensor_body := (sensor_body (new_entity_jump_sensor (0.5, 0.5, 1)))
           \<lparr>overlappingObjects := [SlabBody 1]\<rparr>\<rparr>"
  let ?s' = "fst (snd (poll (\<lambda>x. 1) ?s))"
  have r: "sensor_reachable box_dims ?s"
    by (intro sensor_reachable.overlaps sensor_reachable.constructed)
  have r': "sensor_reachable box_dims ?s'"
    by (rule sensor_reachable.polled [OF r])
  have e: "overlappingObjects (sensor_body ?s') = overlappingObjects (sensor_body ?s)"
    by (simp only: poll_body)
  have a: "fst (poll (\<lambda>x. 1) ?s)"
    by (simp add: poll_result new_sensor_occluded)
  have b: "\<not> fst (poll (\<lambda>x. 0) ?s)"
    by (simp add: poll_result new_sensor_occluded)
  from occluded_zero_between_polls [OF r' r e, of "\<lambda>x. 0"] a b
  show ?thesis by simp
qed



subsection \<open>The entity accessors\<close>

lemma transform_overwrite: "(t::btTransform)\<lparr>origin := p, basis := b\<rparr> = \<lparr>basis = b, origin = p\<rparr>"
  by (cases t) simp

text \<open>
  Claim C7: on a valid handle \<^verbatim>\<open>entity_collider_set\<close> first writes the body's
  world transform (the new position, rotated about the up axis), then, if there is
  a sensor, places it against that new transform, then applies the force; these
  are its only calls, and it returns 0.
\<close>

theorem entity_collider_set_order:
  "entity_collider_set he (Some c) (px, py, pz) rot (vx, vy, vz) jf =
   (let t = \<lparr>basis = rotation_about_up rot, origin = (px, py, pz)\<rparr>;
        f = (vx, vy, vz + jf);
        b = (body c)\<lparr>worldTransform := t, totalForce := vadd (totalForce (body c)) f\<rparr>
    in case jump_sensor c of
         None \<Rightarrow> (0, Some (c\<lparr>body := b\<rparr>), [SetWorldTransform t, ApplyCentralForce f])
       | Some s \<Rightarrow>
          (let ts = transform_mul t (sensor_offset he (half_dims c) s) in
           (0, Some (c\<lparr>body := b, jump_sensor := Some (s\<lparr>sensor_body := (sensor_body s)\<lparr>ghost_worldTransform := ts\<rparr>\<rparr>)\<rparr>),
            [SetWorldTransform t, SensorSetWorldTransform ts, ApplyCentralForce f])))"
  by (auto simp: entity_collider_set_def Let_def body_applyCentralForce_def body_setWorldTransform_def
     collider_update_jump_sensor_transform_def update_jump_sensor_transform_def UP_DIM_def transform_overwrite split: option.splits prod.splits)

text \<open>
  Claim C8: each of \<^verbatim>\<open>entity_collider_get\<close>, \<^verbatim>\<open>entity_collider_get_pos\<close> and
  \<^verbatim>\<open>entity_collider_set\<close> returns -1 for a null handle and 0 otherwise; for a
  null handle the out-parameters keep their contents, no contact test is run and
  no call is made on a body.
\<close>

theorem entity_accessors_fail_iff_null:
  "fst (entity_collider_get ct collider pos rot occ) = (if collider = None then - 1 else 0)
  \<and> fst (entity_collider_get_pos collider pos) = (if collider = None then - 1 else 0)
  \<and> fst (entity_collider_set he collider pos rot' vel jf) = (if collider = None then - 1 else 0)
  \<and> entity_collider_get ct None pos rot occ = (- 1, None, pos, rot, occ, [])
  \<and> entity_collider_get_pos None pos = (- 1, pos)
  \<and> entity_collider_set he None pos rot' vel jf = (- 1, None, [])"
  by (auto simp: entity_collider_get_def entity_collider_get_pos_def entity_collider_set_def Let_def split: option.splits prod.splits)

end
